theory Spec2Isabelle
  imports Main "HOL-Library.Sublist" "HOL-Library.AList"
begin

section \<open>Strings\<close>

text \<open>
  Python strings are modelled as \<open>string\<close> (lists of 8-bit characters); every text the
  engine builds itself (decimal counters, date buckets, the format selectors) is ASCII.
\<close>

definition is_digit :: "char \<Rightarrow> bool" where
  "is_digit c = (c \<in> set ''0123456789'')"

definition digit_val :: "char \<Rightarrow> nat" where
  "digit_val c = length (takeWhile (\<lambda>d. d \<noteq> c) ''0123456789'')"

definition digit_char :: "nat \<Rightarrow> char" where
  "digit_char n = ''0123456789'' ! n"

text \<open>\<open>str(counter)\<close> for a non-negative Python int: its decimal numeral.\<close>

fun str_nat :: "nat \<Rightarrow> string" where
  "str_nat n = (if n < 10 then [digit_char n] else str_nat (n div 10) @ [digit_char (n mod 10)])"

declare str_nat.simps [simp del]

fun int_of_digits :: "nat \<Rightarrow> string \<Rightarrow> nat" where
  "int_of_digits acc [] = acc"
| "int_of_digits acc (c # cs) = int_of_digits (10 * acc + digit_val c) cs"

text \<open>\<open>str.lower()\<close> on ASCII letters.\<close>

definition lower_char :: "char \<Rightarrow> char" where
  "lower_char c =
     (case map_of (zip ''ABCDEFGHIJKLMNOPQRSTUVWXYZ'' ''abcdefghijklmnopqrstuvwxyz'') c of
        Some l \<Rightarrow> l
      | None \<Rightarrow> c)"

definition lower :: "string \<Rightarrow> string" where
  "lower s = map lower_char s"

text \<open>
  \<open>s.replace(old, new, count)\<close> for one-character \<open>old\<close> and \<open>new\<close>: the first
  \<open>count\<close> occurrences are replaced, from the left.
\<close>

fun replace :: "char \<Rightarrow> char \<Rightarrow> nat \<Rightarrow> string \<Rightarrow> string" where
  "replace old new 0 s = s"
| "replace old new (Suc n) [] = []"
| "replace old new (Suc n) (c # s) =
     (if c = old then new # replace old new n s else c # replace old new (Suc n) s)"

text \<open>
  \<open>os.path.splitext\<close> on a single path component: the extension starts at the last
  dot, unless only dots stand before it (\<open>.cshrc\<close> has no extension).
\<close>

definition rfind :: "char \<Rightarrow> string \<Rightarrow> nat option" where
  "rfind c s =
     (if c \<in> set s then Some (length s - 1 - length (takeWhile (\<lambda>x. x \<noteq> c) (rev s))) else None)"

definition splitext :: "string \<Rightarrow> string \<times> string" where
  "splitext p =
     (case rfind (CHR ''.'') p of
        None \<Rightarrow> (p, [])
      | Some d \<Rightarrow>
          if list_ex (\<lambda>c. c \<noteq> CHR ''.'') (take d p) then (take d p, drop d p) else (p, []))"


section \<open>Dates\<close>

text \<open>
  A \<open>datetime\<close> value. File timestamps are kept as the local \<open>datetime\<close> that
  \<open>datetime.fromtimestamp(st_mtime)\<close> yields.
\<close>

record datetime =
  year :: nat
  month :: nat
  day :: nat
  hour :: nat
  minute :: nat
  second :: nat

definition is_leap :: "nat \<Rightarrow> bool" where
  "is_leap y = (y mod 4 = 0 \<and> (y mod 400 = 0 \<or> y mod 100 \<noteq> 0))"

definition days_in_month :: "nat \<Rightarrow> nat \<Rightarrow> nat" where
  "days_in_month y m =
     (if m = 2 then (if is_leap y then 29 else 28)
      else if m \<in> set [4, 6, 9, 11] then 30 else 31)"

text \<open>The range checks of the \<open>datetime\<close> constructor (a failure is a \<open>ValueError\<close>).\<close>

definition valid_datetime :: "datetime \<Rightarrow> bool" where
  "valid_datetime d =
     (1 \<le> year d \<and> year d \<le> 9999 \<and> 1 \<le> month d \<and> month d \<le> 12 \<and>
      1 \<le> day d \<and> day d \<le> days_in_month (year d) (month d) \<and>
      hour d < 24 \<and> minute d < 60 \<and> second d < 60)"

subsection \<open>strftime\<close>

definition pad2 :: "nat \<Rightarrow> string" where
  "pad2 n = (if n < 10 then CHR ''0'' # str_nat n else str_nat n)"

text \<open>
  \<open>datetime.strftime\<close> for the directives the engine uses; any other character pair
  is copied. The C library writes \<open>%Y\<close> as the plain decimal number of the year, so
  a year below 1000 has fewer than four digits; the other fields have two digits.
\<close>

fun strftime :: "string \<Rightarrow> datetime \<Rightarrow> string" where
  "strftime [] d = []"
| "strftime [c] d = [c]"
| "strftime (c # e # s) d =
     (if c = CHR ''%'' then
        (if e = CHR ''Y'' then str_nat (year d) @ strftime s d
         else if e = CHR ''m'' then pad2 (month d) @ strftime s d
         else if e = CHR ''d'' then pad2 (day d) @ strftime s d
         else if e = CHR ''H'' then pad2 (hour d) @ strftime s d
         else if e = CHR ''M'' then pad2 (minute d) @ strftime s d
         else if e = CHR ''S'' then pad2 (second d) @ strftime s d
         else c # e # strftime s d)
      else c # strftime (e # s) d)"

subsection \<open>strptime\<close>

text \<open>
  \<open>datetime.strptime(data, format)\<close> turns the format into a regular expression and
  matches it at the start of the data: a directive becomes a group of alternatives tried
  in order, a run of white space becomes \<open>\s+\<close>, any other character stands for itself.
  The match must use up the data, and the fields must form a valid \<open>datetime\<close>;
  otherwise \<open>ValueError\<close> is raised, which is \<open>None\<close> here.
\<close>

datatype token = Directive char | Space | Lit char | Stray

definition is_space :: "char \<Rightarrow> bool" where
  "is_space c =
     (c \<in> set [CHR 0x20, CHR 0x09, CHR 0x0A, CHR 0x0B, CHR 0x0C, CHR 0x0D,
                CHR 0x1C, CHR 0x1D, CHR 0x1E, CHR 0x1F, CHR 0x85, CHR 0xA0])"

fun tokens :: "bool \<Rightarrow> string \<Rightarrow> token list" where
  "tokens sp [] = []"
| "tokens sp [c] =
     (if c = CHR ''%'' then [Stray]
      else if is_space c then (if sp then [] else [Space])
      else [Lit c])"
| "tokens sp (c # e # s) =
     (if c = CHR ''%'' then (if e = CHR ''%'' then Lit e else Directive e) # tokens False s
      else if is_space c then (if sp then tokens True (e # s) else Space # tokens True (e # s))
      else Lit c # tokens False (e # s))"

text \<open>One alternative of a directive's group: two characters, or one.\<close>

fun alt2 :: "(char \<Rightarrow> bool) \<Rightarrow> (char \<Rightarrow> bool) \<Rightarrow> string \<Rightarrow> (string \<times> string) list" where
  "alt2 p q (a # b # s) = (if p a \<and> q b then [([a, b], s)] else [])"
| "alt2 p q s = []"

fun alt1 :: "(char \<Rightarrow> bool) \<Rightarrow> string \<Rightarrow> (string \<times> string) list" where
  "alt1 p (a # s) = (if p a then [([a], s)] else [])"
| "alt1 p s = []"

fun alt4 :: "(char \<Rightarrow> bool) \<Rightarrow> string \<Rightarrow> (string \<times> string) list" where
  "alt4 p (a # b # c # d # s) = (if p a \<and> p b \<and> p c \<and> p d then [([a, b, c, d], s)] else [])"
| "alt4 p s = []"

definition one_of :: "string \<Rightarrow> char \<Rightarrow> bool" where
  "one_of cs c = (c \<in> set cs)"

text \<open>
  The groups, as the library writes them:
  \<open>%Y\<close> is \<open>\d\d\d\d\<close>; \<open>%m\<close> is \<open>1[0-2]|0[1-9]|[1-9]\<close>;
  \<open>%d\<close> is \<open>3[0-1]|[1-2]\d|0[1-9]|[1-9]| [1-9]\<close>; \<open>%H\<close> is \<open>2[0-3]|[0-1]\d|\d\<close>;
  \<open>%M\<close> is \<open>[0-5]\d|\d\<close>; \<open>%S\<close> is \<open>6[0-1]|[0-5]\d|\d\<close>.
  Each result is the matched text with what follows it. Any other directive matches
  nothing.
\<close>

definition directive :: "char \<Rightarrow> string \<Rightarrow> (string \<times> string) list" where
  "directive c s =
     (if c = CHR ''Y'' then alt4 is_digit s
      else if c = CHR ''m'' then
        alt2 (one_of ''1'') (one_of ''012'') s @ alt2 (one_of ''0'') (one_of ''123456789'') s @
        alt1 (one_of ''123456789'') s
      else if c = CHR ''d'' then
        alt2 (one_of ''3'') (one_of ''01'') s @ alt2 (one_of ''12'') is_digit s @
        alt2 (one_of ''0'') (one_of ''123456789'') s @ alt1 (one_of ''123456789'') s @
        alt2 (one_of '' '') (one_of ''123456789'') s
      else if c = CHR ''H'' then
        alt2 (one_of ''2'') (one_of ''0123'') s @ alt2 (one_of ''01'') is_digit s @ alt1 is_digit s
      else if c = CHR ''M'' then
        alt2 (one_of ''012345'') is_digit s @ alt1 is_digit s
      else if c = CHR ''S'' then
        alt2 (one_of ''6'') (one_of ''01'') s @ alt2 (one_of ''012345'') is_digit s @ alt1 is_digit s
      else [])"

text \<open>\<open>\s+\<close>: one or more white-space characters, the longest run first.\<close>

fun spaces :: "string \<Rightarrow> string list" where
  "spaces [] = []"
| "spaces (c # s) = (if is_space c then spaces s @ [s] else [])"

fun first_some :: "('a \<Rightarrow> 'b option) \<Rightarrow> 'a list \<Rightarrow> 'b option" where
  "first_some f [] = None"
| "first_some f (x # xs) = (case f x of Some y \<Rightarrow> Some y | None \<Rightarrow> first_some f xs)"

text \<open>
  The first match in the order of the alternatives, with backtracking: the fields found
  and the data left over.
\<close>

fun re_match :: "token list \<Rightarrow> string \<Rightarrow> ((char \<times> string) list \<times> string) option" where
  "re_match [] s = Some ([], s)"
| "re_match (Directive c # ts) s =
     first_some (\<lambda>(v, r). map_option (\<lambda>(fs, r'). ((c, v) # fs, r')) (re_match ts r)) (directive c s)"
| "re_match (Space # ts) s = first_some (\<lambda>r. re_match ts r) (spaces s)"
| "re_match (Lit c # ts) s =
     (case s of [] \<Rightarrow> None | a # r \<Rightarrow> if a = c then re_match ts r else None)"
| "re_match (Stray # ts) s = None"

text \<open>\<open>int(found_dict[...])\<close>: a leading blank (from \<open>%d\<close>) is skipped.\<close>

definition field :: "(char \<times> string) list \<Rightarrow> char \<Rightarrow> nat \<Rightarrow> nat" where
  "field fs c dflt =
     (case map_of fs c of
        None \<Rightarrow> dflt
      | Some v \<Rightarrow> int_of_digits 0 (filter is_digit v))"

definition strptime :: "string \<Rightarrow> string \<Rightarrow> datetime option" where
  "strptime date_string format =
     (case re_match (tokens False format) date_string of
        None \<Rightarrow> None
      | Some (fs, rest) \<Rightarrow>
          if rest \<noteq> [] then None
          else
            (let d = \<lparr>year = field fs (CHR ''Y'') 1900, month = field fs (CHR ''m'') 1,
                      day = field fs (CHR ''d'') 1, hour = field fs (CHR ''H'') 0,
                      minute = field fs (CHR ''M'') 0, second = field fs (CHR ''S'') 0\<rparr>
             in if valid_datetime d then Some d else None))"


section \<open>The file system\<close>

text \<open>
  A path is the list of its components below the root; \<open>os.path.join(d, name)\<close> with a
  single component \<open>name\<close> is \<open>d @ [name]\<close>, \<open>os.path.dirname\<close> is \<open>butlast\<close> and
  \<open>os.path.basename\<close> is \<open>last\<close>. The file system is a table from paths to nodes, in
  the order in which the entries were made; a directory is listed in that order. There
  are no links and no permissions: an operation fails only for the shape of the tree
  (a missing path, a file where a directory is needed, and so on), and a failing
  operation changes nothing. A file carries what \<open>Image.open(path)._getexif()\<close> makes of
  its bytes.
\<close>

type_synonym path = "string list"

datatype exif = Undecodable | NoExif | Exif "(nat \<times> string) list"

datatype node = File string datetime exif | Dir datetime

type_synonym fs = "(path \<times> node) list"

datatype exn =
  FileNotFoundError | NotADirectoryError | IsADirectoryError | FileExistsError
  | SameFileError | ShutilError | DirectoryNotEmpty | InvalidArgument

fun node_mtime :: "node \<Rightarrow> datetime" where
  "node_mtime (File c t x) = t"
| "node_mtime (Dir t) = t"

definition lookup :: "fs \<Rightarrow> path \<Rightarrow> node option" where
  "lookup fs p = map_of fs p"

definition path_exists :: "fs \<Rightarrow> path \<Rightarrow> bool" where
  "path_exists fs p = (lookup fs p \<noteq> None)"

definition path_isdir :: "fs \<Rightarrow> path \<Rightarrow> bool" where
  "path_isdir fs p = (case lookup fs p of Some (Dir t) \<Rightarrow> True | _ \<Rightarrow> False)"

definition path_isfile :: "fs \<Rightarrow> path \<Rightarrow> bool" where
  "path_isfile fs p = (case lookup fs p of Some (File c t x) \<Rightarrow> True | _ \<Rightarrow> False)"

definition children :: "fs \<Rightarrow> path \<Rightarrow> string list" where
  "children fs d = map (\<lambda>(p, n). last p) (filter (\<lambda>(p, n). p \<noteq> [] \<and> butlast p = d) fs)"

definition os_listdir :: "fs \<Rightarrow> path \<Rightarrow> exn + string list" where
  "os_listdir fs d =
     (case lookup fs d of
        None \<Rightarrow> Inl FileNotFoundError
      | Some (File c t x) \<Rightarrow> Inl NotADirectoryError
      | Some (Dir t) \<Rightarrow> Inr (children fs d))"

definition os_stat :: "fs \<Rightarrow> path \<Rightarrow> exn + datetime" where
  "os_stat fs p = (case lookup fs p of None \<Rightarrow> Inl FileNotFoundError | Some n \<Rightarrow> Inr (node_mtime n))"

text \<open>The check every creation of an entry makes on the parent directory.\<close>

definition parent_error :: "fs \<Rightarrow> path \<Rightarrow> exn option" where
  "parent_error fs p =
     (case lookup fs (butlast p) of
        None \<Rightarrow> Some FileNotFoundError
      | Some (File c t x) \<Rightarrow> Some NotADirectoryError
      | Some (Dir t) \<Rightarrow> None)"

text \<open>
  Making or removing an entry of a directory sets the modification time of that
  directory to the current time.
\<close>

definition stamp :: "datetime \<Rightarrow> path \<Rightarrow> fs \<Rightarrow> fs" where
  "stamp t d fs =
     map (\<lambda>(p, n). if p = d then (p, case n of Dir t' \<Rightarrow> Dir t | File c t' x \<Rightarrow> File c t' x)
                     else (p, n)) fs"

definition os_mkdir :: "datetime \<Rightarrow> fs \<Rightarrow> path \<Rightarrow> exn + fs" where
  "os_mkdir t fs p =
     (if path_exists fs p then Inl FileExistsError
      else case parent_error fs p of
             Some e \<Rightarrow> Inl e
           | None \<Rightarrow> Inr (stamp t (butlast p) (fs @ [(p, Dir t)])))"

text \<open>
  \<open>os.makedirs(name)\<close>: the missing ancestors first (a \<open>FileExistsError\<close> from that
  call is passed over), then \<open>mkdir(name)\<close>, whose error is raised.
\<close>

function os_makedirs :: "datetime \<Rightarrow> fs \<Rightarrow> path \<Rightarrow> exn + fs" where
  "os_makedirs t fs name =
     (if name \<noteq> [] \<and> \<not> path_exists fs (butlast name) then
        (case os_makedirs t fs (butlast name) of
           Inl e \<Rightarrow> if e = FileExistsError then os_mkdir t fs name else Inl e
         | Inr fs' \<Rightarrow> os_mkdir t fs' name)
      else os_mkdir t fs name)"
  by pat_completeness auto
termination
  by (relation "measure (\<lambda>(t, fs, name). length name)") auto

declare os_makedirs.simps [simp del]

definition os_remove :: "datetime \<Rightarrow> fs \<Rightarrow> path \<Rightarrow> exn + fs" where
  "os_remove t fs p =
     (case lookup fs p of
        None \<Rightarrow> Inl FileNotFoundError
      | Some (Dir t') \<Rightarrow> Inl IsADirectoryError
      | Some (File c t' x) \<Rightarrow> Inr (stamp t (butlast p) (AList.delete p fs)))"

definition os_rmdir :: "datetime \<Rightarrow> fs \<Rightarrow> path \<Rightarrow> exn + fs" where
  "os_rmdir t fs p =
     (case lookup fs p of
        None \<Rightarrow> Inl FileNotFoundError
      | Some (File c t' x) \<Rightarrow> Inl NotADirectoryError
      | Some (Dir t') \<Rightarrow>
          if children fs p \<noteq> [] then Inl DirectoryNotEmpty
          else if p = [] then Inl InvalidArgument
          else Inr (stamp t (butlast p) (AList.delete p fs)))"

text \<open>
  \<open>shutil.copy(src, dst)\<close> (\<open>keep = False\<close>: the copy is stamped with the current time)
  and \<open>shutil.copy2\<close> (\<open>keep = True\<close>: it keeps the source's time). Into a directory the
  copy takes the source's name. The source is opened first, then the target; writing
  over a file that is there makes no new entry.
\<close>

definition copy_file :: "bool \<Rightarrow> datetime \<Rightarrow> fs \<Rightarrow> path \<Rightarrow> path \<Rightarrow> exn + fs" where
  "copy_file keep t fs src dst =
     (let dst' = (if path_isdir fs dst then dst @ [last src] else dst) in
      if src = dst' \<and> path_exists fs src then Inl SameFileError
      else case lookup fs src of
        None \<Rightarrow> Inl FileNotFoundError
      | Some (Dir t') \<Rightarrow> Inl IsADirectoryError
      | Some (File c t' x) \<Rightarrow>
          (case lookup fs dst' of
             Some (Dir t'') \<Rightarrow> Inl IsADirectoryError
           | Some (File c'' t'' x'') \<Rightarrow> Inr (AList.update dst' (File c (if keep then t' else t) x) fs)
           | None \<Rightarrow>
               (case parent_error fs dst' of
                  Some e \<Rightarrow> Inl e
                | None \<Rightarrow>
                    Inr (stamp t (butlast dst')
                           (fs @ [(dst', File c (if keep then t' else t) x)])))))"

definition shutil_copy :: "datetime \<Rightarrow> fs \<Rightarrow> path \<Rightarrow> path \<Rightarrow> exn + fs" where
  "shutil_copy t fs src dst = copy_file False t fs src dst"

text \<open>Moving a whole subtree: every entry at or below \<open>src\<close> goes below \<open>dst\<close>.\<close>

definition relocate :: "path \<Rightarrow> path \<Rightarrow> fs \<Rightarrow> fs" where
  "relocate src dst fs =
     map (\<lambda>(p, n). if prefix src p then (dst @ drop (length src) p, n) else (p, n))
       (filter (\<lambda>(p, n). prefix src p \<or> \<not> prefix dst p) fs)"

text \<open>
  \<open>os.rename(src, dst)\<close>: a file replaces a file, a directory replaces an empty
  directory, and a directory is not moved into itself. The directory that loses the
  entry and the one that gets it are stamped.
\<close>

definition renamed :: "datetime \<Rightarrow> path \<Rightarrow> path \<Rightarrow> fs \<Rightarrow> fs" where
  "renamed tm src dst fs = stamp tm (butlast dst) (stamp tm (butlast src) fs)"

definition os_rename :: "datetime \<Rightarrow> fs \<Rightarrow> path \<Rightarrow> path \<Rightarrow> exn + fs" where
  "os_rename tm fs src dst =
     (case lookup fs src of
        None \<Rightarrow> Inl FileNotFoundError
      | Some (File c t x) \<Rightarrow>
          if src = dst then Inr fs
          else (case parent_error fs dst of
                  Some e \<Rightarrow> Inl e
                | None \<Rightarrow>
                    (case lookup fs dst of
                       Some (Dir t') \<Rightarrow> Inl IsADirectoryError
                     | _ \<Rightarrow>
                         Inr (renamed tm src dst
                                (AList.update dst (File c t x) (AList.delete src fs)))))
      | Some (Dir t) \<Rightarrow>
          if src = dst then Inr fs
          else if prefix src dst then Inl InvalidArgument
          else (case parent_error fs dst of
                  Some e \<Rightarrow> Inl e
                | None \<Rightarrow>
                    (case lookup fs dst of
                       Some (File c' t' x') \<Rightarrow> Inl NotADirectoryError
                     | Some (Dir t') \<Rightarrow>
                         if children fs dst \<noteq> [] then Inl DirectoryNotEmpty
                         else Inr (renamed tm src dst (relocate src dst fs))
                     | None \<Rightarrow> Inr (renamed tm src dst (relocate src dst fs)))))"

text \<open>
  \<open>shutil.move(src, dst)\<close>: into an existing directory \<open>dst\<close> the source keeps its name
  (an error if that name is taken); then \<open>os.rename\<close>, and when that fails, for a
  directory \<open>copytree\<close> and \<open>rmtree\<close> (which make the missing parents of the target)
  unless the target lies in the source, for a file \<open>copy2\<close> and \<open>unlink\<close>.
\<close>

definition shutil_move :: "datetime \<Rightarrow> fs \<Rightarrow> path \<Rightarrow> path \<Rightarrow> exn + fs" where
  "shutil_move t fs src dst =
     (if path_isdir fs dst \<and> src = dst then os_rename t fs src dst
      else if path_isdir fs dst \<and> path_exists fs (dst @ [last src]) then Inl ShutilError
      else
        (let real_dst = (if path_isdir fs dst then dst @ [last src] else dst) in
         case os_rename t fs src real_dst of
           Inr fs' \<Rightarrow> Inr fs'
         | Inl e \<Rightarrow>
             if path_isdir fs src then
               (if prefix src dst then Inl ShutilError
                else if path_exists fs real_dst then Inl FileExistsError
                else if path_exists fs (butlast real_dst) then Inl e
                else (case os_makedirs t fs (butlast real_dst) of
                        Inl e' \<Rightarrow> Inl e'
                      | Inr fs' \<Rightarrow> Inr (renamed t src real_dst (relocate src real_dst fs'))))
             else
               (case copy_file True t fs src real_dst of
                  Inl e' \<Rightarrow> Inl e'
                | Inr fs' \<Rightarrow> os_remove t fs' src)))"


section \<open>The engine: \<open>FileManagementLogic\<close>\<close>

text \<open>
  The entries of a manifest (the dictionaries with the keys \<open>file\<close>, \<open>from\<close>, \<open>to\<close>,
  \<open>date_folder\<close>, \<open>date_source\<close>), an operation (\<open>type\<close>, \<open>files\<close>, \<open>timestamp\<close>) and
  the fields of the object. Every method takes the file system and the object and
  returns them updated; \<open>print\<close> is left out.
\<close>

record file_info =
  fi_file :: string
  from_path :: path
  to_path :: path
  date_folder :: string
  date_source :: string

record operation =
  op_type :: string
  op_files :: "file_info list"
  op_timestamp :: datetime

record logic =
  target_folder_path :: path
  destination_folder_path :: path
  format_type :: string
  last_operation :: "operation option"
  operation_history :: "operation list"

text \<open>What the run time supplies: the clock, and whether PIL can be imported.\<close>

record env =
  now :: datetime
  pil_available :: bool

definition init :: "path \<Rightarrow> path \<Rightarrow> string \<Rightarrow> logic" where
  "init target project fmt =
     \<lparr>target_folder_path = target, destination_folder_path = project, format_type = fmt,
      last_operation = None, operation_history = []\<rparr>"

subsection \<open>Undo\<close>

text \<open>\<open>folders_to_check.add(folder_path)\<close>; the set is walked in the order of insertion.\<close>

definition set_add :: "path \<Rightarrow> path list \<Rightarrow> path list" where
  "set_add p ps = (if p \<in> set ps then ps else ps @ [p])"

text \<open>
  \<open>_remove_empty_folders\<close>: every exception the model can raise is an \<open>OSError\<close>, which
  the inner handler catches before going on with the next folder.
\<close>

fun remove_empty_folders :: "datetime \<Rightarrow> fs \<Rightarrow> path list \<Rightarrow> fs" where
  "remove_empty_folders t fs [] = fs"
| "remove_empty_folders t fs (folder_path # rest) =
     (if path_exists fs folder_path \<and> path_isdir fs folder_path then
        (case os_listdir fs folder_path of
           Inl e \<Rightarrow> remove_empty_folders t fs rest
         | Inr contents \<Rightarrow>
             if contents = [] then
               (case os_rmdir t fs folder_path of
                  Inl e \<Rightarrow> remove_empty_folders t fs rest
                | Inr fs' \<Rightarrow> remove_empty_folders t fs' rest)
             else remove_empty_folders t fs rest)
      else remove_empty_folders t fs rest)"

text \<open>
  The loop of \<open>_undo_move_operation\<close> over \<open>files_info\<close>; \<open>Inl\<close> is the exception that
  leaves the loop, with the file system as it stands then.
\<close>

fun undo_move_loop :: "datetime \<Rightarrow> fs \<Rightarrow> file_info list \<Rightarrow> path list \<Rightarrow> exn \<times> fs + path list \<times> fs" where
  "undo_move_loop t fs [] folders_to_check = Inr (folders_to_check, fs)"
| "undo_move_loop t fs (fi # rest) folders_to_check =
     (if path_exists fs (to_path fi) then
        (case shutil_move t fs (to_path fi) (from_path fi) of
           Inl e \<Rightarrow> Inl (e, fs)
         | Inr fs' \<Rightarrow> undo_move_loop t fs' rest (set_add (butlast (to_path fi)) folders_to_check))
      else undo_move_loop t fs rest folders_to_check)"

definition undo_move_operation :: "env \<Rightarrow> fs \<Rightarrow> logic \<Rightarrow> file_info list \<Rightarrow> bool \<times> fs \<times> logic" where
  "undo_move_operation ev fs self files_info =
     (case undo_move_loop (now ev) fs files_info [] of
        Inl (e, fs') \<Rightarrow> (False, fs', self)
      | Inr (folders_to_check, fs') \<Rightarrow>
          (True, remove_empty_folders (now ev) fs' folders_to_check, self\<lparr>last_operation := None\<rparr>))"

fun undo_copy_loop :: "datetime \<Rightarrow> fs \<Rightarrow> file_info list \<Rightarrow> path list \<Rightarrow> exn \<times> fs + path list \<times> fs" where
  "undo_copy_loop t fs [] folders_to_check = Inr (folders_to_check, fs)"
| "undo_copy_loop t fs (fi # rest) folders_to_check =
     (if path_exists fs (to_path fi) then
        (case os_remove t fs (to_path fi) of
           Inl e \<Rightarrow> Inl (e, fs)
         | Inr fs' \<Rightarrow> undo_copy_loop t fs' rest (set_add (butlast (to_path fi)) folders_to_check))
      else undo_copy_loop t fs rest folders_to_check)"

definition undo_copy_operation :: "env \<Rightarrow> fs \<Rightarrow> logic \<Rightarrow> file_info list \<Rightarrow> bool \<times> fs \<times> logic" where
  "undo_copy_operation ev fs self files_info =
     (case undo_copy_loop (now ev) fs files_info [] of
        Inl (e, fs') \<Rightarrow> (False, fs', self)
      | Inr (folders_to_check, fs') \<Rightarrow>
          (True, remove_empty_folders (now ev) fs' folders_to_check, self\<lparr>last_operation := None\<rparr>))"

definition undo_last_action :: "env \<Rightarrow> fs \<Rightarrow> logic \<Rightarrow> bool \<times> fs \<times> logic" where
  "undo_last_action ev fs self =
     (case last_operation self of
        None \<Rightarrow> (False, fs, self)
      | Some op \<Rightarrow>
          if op_type op = ''move'' then undo_move_operation ev fs self (op_files op)
          else if op_type op = ''copy'' then undo_copy_operation ev fs self (op_files op)
          else (False, fs, self))"

subsection \<open>Tracking\<close>

definition track_operation :: "env \<Rightarrow> logic \<Rightarrow> string \<Rightarrow> file_info list \<Rightarrow> logic" where
  "track_operation ev self operation_type files_info =
     (let op = \<lparr>op_type = operation_type, op_files = files_info, op_timestamp = now ev\<rparr>;
          history = operation_history self @ [op]
      in self\<lparr>last_operation := Some op,
              operation_history := (if length history > 10 then tl history else history)\<rparr>)"

subsection \<open>Listing and dates\<close>

definition get_target_folder_files_count :: "fs \<Rightarrow> logic \<Rightarrow> exn + nat" where
  "get_target_folder_files_count fs self =
     (case os_listdir fs (target_folder_path self) of
        Inl e \<Rightarrow> Inl e
      | Inr names \<Rightarrow>
          Inr (length (filter (\<lambda>name. path_isfile fs (target_folder_path self @ [name])) names)))"

definition get_target_files :: "fs \<Rightarrow> logic \<Rightarrow> exn + string list" where
  "get_target_files fs self = os_listdir fs (target_folder_path self)"

definition format_date :: "logic \<Rightarrow> string" where
  "format_date self =
     (if format_type self = ''DD-MM-YYYY'' then ''%d-%m-%Y''
      else if format_type self = ''MM-DD-YYYY'' then ''%m-%d-%Y''
      else if format_type self = ''YYYY-MM-DD'' then ''%Y-%m-%d''
      else ''%Y-%m-%d'')"

definition image_extensions :: "string list" where
  "image_extensions = [''.jpg'', ''.jpeg'', ''.png'', ''.gif'', ''.bmp'', ''.tiff'', ''.tif'']"

definition date_fields :: "nat list" where
  "date_fields = [36867, 36868, 306, 50971]"

text \<open>
  The \<open>try\<close> block on one tag value (a string): \<open>None\<close> is the \<open>ValueError\<close> that
  sends the loop to the next tag, or the inner loop running out of formats.
\<close>

definition parse_date_str :: "string \<Rightarrow> datetime option" where
  "parse_date_str date_str =
     (if CHR '':'' \<in> set date_str then
        strptime (replace (CHR '':'') (CHR '' '') 1 (replace (CHR '':'') (CHR ''-'') 2 date_str))
          ''%Y-%m-%d %H:%M:%S''
      else
        first_some (\<lambda>fmt. strptime date_str fmt) [''%Y-%m-%d %H:%M:%S'', ''%Y-%m-%d'', ''%Y/%m/%d''])"

fun probe_date_fields :: "(nat \<times> string) list \<Rightarrow> nat list \<Rightarrow> datetime option" where
  "probe_date_fields exif_data [] = None"
| "probe_date_fields exif_data (field_id # rest) =
     (case map_of exif_data field_id of
        None \<Rightarrow> probe_date_fields exif_data rest
      | Some date_str \<Rightarrow>
          if date_str \<noteq> [] then
            (case parse_date_str date_str of
               Some d \<Rightarrow> Some d
             | None \<Rightarrow> probe_date_fields exif_data rest)
          else probe_date_fields exif_data rest)"

text \<open>
  \<open>_get_exif_date\<close>: any exception of \<open>Image.open\<close> or \<open>_getexif\<close> (a missing path, a
  directory, bytes that are no image) is caught and gives \<open>None\<close>.
\<close>

definition get_exif_date :: "env \<Rightarrow> fs \<Rightarrow> path \<Rightarrow> datetime option" where
  "get_exif_date ev fs file_path =
     (let file_ext = lower (snd (splitext (last file_path))) in
      if file_ext \<notin> set image_extensions then None
      else if \<not> pil_available ev then None
      else case lookup fs file_path of
        Some (File c t (Exif exif_data)) \<Rightarrow> probe_date_fields exif_data date_fields
      | _ \<Rightarrow> None)"

record date_info =
  info_date :: string
  info_source :: string
  original_date :: datetime
  datetime_original :: string

definition get_file_date_info :: "env \<Rightarrow> fs \<Rightarrow> logic \<Rightarrow> string \<Rightarrow> exn + date_info" where
  "get_file_date_info ev fs self file_name =
     (let file_path = target_folder_path self @ [file_name] in
      case os_stat fs file_path of
        Inl e \<Rightarrow> Inl e
      | Inr st_mtime \<Rightarrow>
          (case get_exif_date ev fs file_path of
             Some photo_date \<Rightarrow>
               Inr \<lparr>info_date = strftime (format_date self) photo_date, info_source = ''EXIF data'',
                    original_date = photo_date,
                    datetime_original = strftime ''%Y-%m-%d %H:%M:%S'' photo_date\<rparr>
           | None \<Rightarrow>
               Inr \<lparr>info_date = strftime (format_date self) st_mtime,
                    info_source = ''File modification time'', original_date = st_mtime,
                    datetime_original = strftime ''%Y-%m-%d %H:%M:%S'' st_mtime\<rparr>))"

definition read_file_date_properties :: "env \<Rightarrow> fs \<Rightarrow> logic \<Rightarrow> string \<Rightarrow> exn + string" where
  "read_file_date_properties ev fs self file_name =
     (let file_path = target_folder_path self @ [file_name] in
      case os_stat fs file_path of
        Inl e \<Rightarrow> Inl e
      | Inr st_mtime \<Rightarrow>
          (case get_exif_date ev fs file_path of
             Some photo_date \<Rightarrow> Inr (strftime (format_date self) photo_date)
           | None \<Rightarrow> Inr (strftime (format_date self) st_mtime)))"


subsection \<open>Planning a destination\<close>

text \<open>
  The loop \<open>while os.path.exists(destination_path)\<close> with its counter; \<open>new_name\<close> is
  \<open>f"{base_name}_{counter}{extension}"\<close>. It has no bound of its own: it ends because
  different counters give different names and the file system holds finitely many.
\<close>

definition new_name :: "string \<Rightarrow> string \<Rightarrow> nat \<Rightarrow> string" where
  "new_name base_name extension counter = base_name @ ''_'' @ str_nat counter @ extension"

lemma int_of_digits_snoc: "int_of_digits a (xs @ [c]) = 10 * int_of_digits a xs + digit_val c"
  by (induction xs arbitrary: a) auto

lemma digit_val_digit_char: "d < 10 \<Longrightarrow> digit_val (digit_char d) = d"
proof -
  assume "d < 10"
  then have "d \<in> {0, 1, 2, 3, 4, 5, 6, 7, 8, 9}" by auto
  then show ?thesis by (auto simp: digit_val_def digit_char_def)
qed

lemma int_of_digits_str_nat: "int_of_digits 0 (str_nat n) = n"
proof (induction n rule: str_nat.induct)
  case (1 n)
  show ?case
  proof (cases "n < 10")
    case True
    then show ?thesis by (simp add: str_nat.simps [of n] digit_val_digit_char)
  next
    case False
    with 1 show ?thesis
      by (simp add: str_nat.simps [of n] int_of_digits_snoc digit_val_digit_char)
  qed
qed

lemma str_nat_inj: "str_nat a = str_nat b \<Longrightarrow> a = b"
  by (metis int_of_digits_str_nat)

lemma new_name_inj: "new_name b e i = new_name b e j \<Longrightarrow> i = j"
  by (simp add: new_name_def str_nat_inj)

lemma finite_taken: "finite {k. path_exists fs (f @ [new_name b e k])}"
proof -
  have "inj (\<lambda>k. f @ [new_name b e k])"
    by (rule injI) (simp add: new_name_inj)
  moreover have "finite (dom (map_of fs))"
    by (rule finite_dom_map_of)
  ultimately have "finite ((\<lambda>k. f @ [new_name b e k]) -` dom (map_of fs))"
    by (simp add: finite_vimageI)
  moreover have "{k. path_exists fs (f @ [new_name b e k])} = (\<lambda>k. f @ [new_name b e k]) -` dom (map_of fs)"
    by (auto simp: path_exists_def lookup_def)
  ultimately show ?thesis by simp
qed

function while_exists :: "fs \<Rightarrow> path \<Rightarrow> string \<Rightarrow> string \<Rightarrow> path \<Rightarrow> nat \<Rightarrow> path" where
  "while_exists fs folder_path base_name extension destination_path counter =
     (if path_exists fs destination_path then
        while_exists fs folder_path base_name extension
          (folder_path @ [new_name base_name extension counter]) (Suc counter)
      else destination_path)"
  by pat_completeness auto
termination
proof (relation "measure (\<lambda>(fs, f, b, e, dp, c).
         if path_exists fs dp then Suc (card {k. c \<le> k \<and> path_exists fs (f @ [new_name b e k])}) else 0)")
  show "wf (measure (\<lambda>(fs, f, b, e, dp, c).
         if path_exists fs dp then Suc (card {k. c \<le> k \<and> path_exists fs (f @ [new_name b e k])}) else 0))"
    by simp
next
  fix fs :: fs and f b e dp and c :: nat
  assume ex: "path_exists fs dp"
  let ?A = "\<lambda>c. {k. c \<le> k \<and> path_exists fs (f @ [new_name b e k])}"
  have fin: "finite (?A c)"
    using finite_taken [of fs f b e] by (rule rev_finite_subset) auto
  have "path_exists fs (f @ [new_name b e c]) \<Longrightarrow> card (?A (Suc c)) < card (?A c)"
  proof -
    assume "path_exists fs (f @ [new_name b e c])"
    then have "?A (Suc c) \<subset> ?A c" by (auto simp: Suc_le_eq)
    then show ?thesis using fin by (rule psubset_card_mono [rotated])
  qed
  then show "((fs, f, b, e, f @ [new_name b e c], Suc c), (fs, f, b, e, dp, c))
        \<in> measure (\<lambda>(fs, f, b, e, dp, c).
         if path_exists fs dp then Suc (card {k. c \<le> k \<and> path_exists fs (f @ [new_name b e k])}) else 0)"
    using ex by simp
qed

declare while_exists.simps [simp del]

text \<open>
  The destination of one file in its date folder: the file's own name, or when that is
  taken the first free name the loop reaches from counter 1.
\<close>

definition plan_destination :: "fs \<Rightarrow> path \<Rightarrow> string \<Rightarrow> path" where
  "plan_destination fs folder_path file_name =
     (let destination_path = folder_path @ [file_name] in
      if path_exists fs destination_path then
        (case splitext file_name of
           (base_name, extension) \<Rightarrow>
             while_exists fs folder_path base_name extension destination_path 1)
      else destination_path)"

subsection \<open>The batches\<close>

datatype batch_error = SourceFileNotFound path | ErrorProcessingFile string exn

text \<open>
  \<open>create_folder_with_date\<close> has no handler: an exception of \<open>os.stat\<close> or
  \<open>os.makedirs\<close> leaves the method (\<open>Inl\<close>, with the file system as it stands).
\<close>

fun create_folders :: "env \<Rightarrow> logic \<Rightarrow> fs \<Rightarrow> string list \<Rightarrow> exn \<times> fs + fs" where
  "create_folders ev self fs [] = Inr fs"
| "create_folders ev self fs (file_name # rest) =
     (case read_file_date_properties ev fs self file_name of
        Inl e \<Rightarrow> Inl (e, fs)
      | Inr file_date \<Rightarrow>
          (let folder_path = destination_folder_path self @ [file_date] in
           if \<not> path_exists fs folder_path then
             (case os_makedirs (now ev) fs folder_path of
                Inl e \<Rightarrow> Inl (e, fs)
              | Inr fs' \<Rightarrow> create_folders ev self fs' rest)
           else create_folders ev self fs rest))"

definition create_folder_with_date :: "env \<Rightarrow> fs \<Rightarrow> logic \<Rightarrow> exn \<times> fs + fs" where
  "create_folder_with_date ev fs self =
     (case get_target_files fs self of
        Inl e \<Rightarrow> Inl (e, fs)
      | Inr names \<Rightarrow> create_folders ev self fs names)"

text \<open>
  The body of the loop of \<open>move_files_to_destination_folder\<close> (\<open>is_move\<close>) and of
  \<open>copy_files_to_destination_folder\<close>, which differ in the transfer only: the new
  entry, or the error the handler records, with the file system after it.
\<close>

definition transfer_one :: "bool \<Rightarrow> env \<Rightarrow> logic \<Rightarrow> fs \<Rightarrow> string \<Rightarrow> (batch_error + file_info) \<times> fs" where
  "transfer_one is_move ev self fs file_name =
     (case get_file_date_info ev fs self file_name of
        Inl e \<Rightarrow> (Inl (ErrorProcessingFile file_name e), fs)
      | Inr file_date_info \<Rightarrow>
          (let file_date = info_date file_date_info;
               folder_path = destination_folder_path self @ [file_date]
           in case (if \<not> path_exists fs folder_path then os_makedirs (now ev) fs folder_path
                    else Inr fs) of
                Inl e \<Rightarrow> (Inl (ErrorProcessingFile file_name e), fs)
              | Inr fs1 \<Rightarrow>
                  (let source_path = target_folder_path self @ [file_name] in
                   if \<not> path_exists fs1 source_path then (Inl (SourceFileNotFound source_path), fs1)
                   else
                     (let destination_path = plan_destination fs1 folder_path file_name in
                      case (if is_move then shutil_move (now ev) fs1 source_path destination_path
                            else shutil_copy (now ev) fs1 source_path destination_path) of
                        Inl e \<Rightarrow> (Inl (ErrorProcessingFile file_name e), fs1)
                      | Inr fs2 \<Rightarrow>
                          (Inr \<lparr>fi_file = file_name, from_path = source_path,
                                to_path = destination_path, date_folder = file_date,
                                date_source = info_source file_date_info\<rparr>, fs2)))))"

fun transfer_loop ::
  "bool \<Rightarrow> env \<Rightarrow> logic \<Rightarrow> fs \<Rightarrow> string list \<Rightarrow> file_info list \<Rightarrow> batch_error list
     \<Rightarrow> file_info list \<times> batch_error list \<times> fs" where
  "transfer_loop is_move ev self fs [] done errors = (done, errors, fs)"
| "transfer_loop is_move ev self fs (file_name # rest) done errors =
     (case transfer_one is_move ev self fs file_name of
        (Inl err, fs') \<Rightarrow> transfer_loop is_move ev self fs' rest done (errors @ [err])
      | (Inr fi, fs') \<Rightarrow> transfer_loop is_move ev self fs' rest (done @ [fi]) errors)"

text \<open>
  The listing is outside every handler: its exception leaves the method. After the
  loop the operation is tracked if the list of entries is not empty.
\<close>

definition move_files_to_destination_folder ::
  "env \<Rightarrow> fs \<Rightarrow> logic \<Rightarrow> exn \<times> fs + (file_info list \<times> batch_error list) \<times> fs \<times> logic" where
  "move_files_to_destination_folder ev fs self =
     (case get_target_files fs self of
        Inl e \<Rightarrow> Inl (e, fs)
      | Inr names \<Rightarrow>
          (case transfer_loop True ev self fs names [] [] of
             (moved_files, errors, fs') \<Rightarrow>
               Inr ((moved_files, errors), fs',
                    if moved_files \<noteq> [] then track_operation ev self ''move'' moved_files else self)))"

definition copy_files_to_destination_folder ::
  "env \<Rightarrow> fs \<Rightarrow> logic \<Rightarrow> exn \<times> fs + (file_info list \<times> batch_error list) \<times> fs \<times> logic" where
  "copy_files_to_destination_folder ev fs self =
     (case get_target_files fs self of
        Inl e \<Rightarrow> Inl (e, fs)
      | Inr names \<Rightarrow>
          (case transfer_loop False ev self fs names [] [] of
             (copied_files, errors, fs') \<Rightarrow>
               Inr ((copied_files, errors), fs',
                    if copied_files \<noteq> [] then track_operation ev self ''copy'' copied_files else self)))"

text \<open>
  \<open>organize_files_by_date\<close> lists the source and reads the dates for its report (every
  exception of a file is caught there, nothing is changed), then moves.
\<close>

definition organize_files_by_date ::
  "env \<Rightarrow> fs \<Rightarrow> logic \<Rightarrow> exn \<times> fs + (file_info list \<times> batch_error list) \<times> fs \<times> logic" where
  "organize_files_by_date ev fs self =
     (case get_target_files fs self of
        Inl e \<Rightarrow> Inl (e, fs)
      | Inr names \<Rightarrow> move_files_to_destination_folder ev fs self)"

definition move :: "env \<Rightarrow> fs \<Rightarrow> logic \<Rightarrow> exn \<times> fs + (file_info list \<times> batch_error list) \<times> fs \<times> logic" where
  "move ev fs self = organize_files_by_date ev fs self"

definition copy :: "env \<Rightarrow> fs \<Rightarrow> logic \<Rightarrow> exn \<times> fs + (file_info list \<times> batch_error list) \<times> fs \<times> logic" where
  "copy ev fs self =
     (case create_folder_with_date ev fs self of
        Inl x \<Rightarrow> Inl x
      | Inr fs' \<Rightarrow> copy_files_to_destination_folder ev fs' self)"


section \<open>Examples\<close>

definition noon :: "nat \<Rightarrow> nat \<Rightarrow> nat \<Rightarrow> datetime" where
  "noon y m d = \<lparr>year = y, month = m, day = d, hour = 12, minute = 0, second = 0\<rparr>"

definition ex_env :: env where
  "ex_env = \<lparr>now = noon 2025 6 1, pil_available = True\<rparr>"


section \<open>Properties\<close>

subsection \<open>What a batch and an undo do to the object\<close>

lemma copy_self_cases:
  assumes "copy ev fs self = Inr ((entries, errors), fs', self')"
  shows "self' = (if entries \<noteq> [] then track_operation ev self ''copy'' entries else self)"
  using assms
  by (auto simp: copy_def copy_files_to_destination_folder_def split: sum.splits prod.splits)

lemma move_self_cases:
  assumes "move ev fs self = Inr ((entries, errors), fs', self')"
  shows "self' = (if entries \<noteq> [] then track_operation ev self ''move'' entries else self)"
  using assms
  by (auto simp: move_def organize_files_by_date_def move_files_to_destination_folder_def
      split: sum.splits prod.splits)

lemma undo_self_cases:
  assumes "undo_last_action ev fs self = (b, fs', self')"
  shows "self' = (if b then self\<lparr>last_operation := None\<rparr> else self)"
  using assms
  by (auto simp: undo_last_action_def undo_move_operation_def undo_copy_operation_def
      split: option.splits sum.splits prod.splits if_splits)

lemma track_history:
  "operation_history (track_operation ev self ty fis) =
     (if length (operation_history self) \<ge> 10 then tl (operation_history self) else operation_history self)
       @ [\<lparr>op_type = ty, op_files = fis, op_timestamp = now ev\<rparr>]"
  by (cases "operation_history self") (auto simp: track_operation_def Let_def)

subsection \<open>The format selector\<close>

text \<open>
  Claim C9. For a format selector that is none of \<open>DD-MM-YYYY\<close>, \<open>MM-DD-YYYY\<close>,
  \<open>YYYY-MM-DD\<close>, \<open>format_date\<close> gives the format of \<open>YYYY-MM-DD\<close>, and so every date
  bucket the engine computes (\<open>get_file_date_info\<close>, \<open>read_file_date_properties\<close>) is the
  one it computes under \<open>YYYY-MM-DD\<close>; \<open>format_date\<close> has no failing branch.
\<close>

theorem format_default:
  assumes "format_type self \<notin> {''DD-MM-YYYY'', ''MM-DD-YYYY'', ''YYYY-MM-DD''}"
  shows "format_date self = format_date (self\<lparr>format_type := ''YYYY-MM-DD''\<rparr>) \<and>
         get_file_date_info ev fs self file_name =
           get_file_date_info ev fs (self\<lparr>format_type := ''YYYY-MM-DD''\<rparr>) file_name \<and>
         read_file_date_properties ev fs self file_name =
           read_file_date_properties ev fs (self\<lparr>format_type := ''YYYY-MM-DD''\<rparr>) file_name"
proof -
  have eq: "format_date (self\<lparr>format_type := ''YYYY-MM-DD''\<rparr>) = format_date self"
    using assms by (simp add: format_date_def)
  have tgt: "target_folder_path (self\<lparr>format_type := ''YYYY-MM-DD''\<rparr>) = target_folder_path self"
    by simp
  show ?thesis
    unfolding get_file_date_info_def read_file_date_properties_def eq tgt by simp
qed

theorem format_default_witness:
  "format_date (init [''src''] [''dst''] ''invalid_format'') = ''%Y-%m-%d'' \<and>
   format_date (init [''src''] [''dst''] ''invalid_format'') =
     format_date (init [''src''] [''dst''] ''YYYY-MM-DD'')"
  using format_default [of "init [''src''] [''dst''] ''invalid_format''"]
  by (simp add: init_def format_date_def)

subsection \<open>The operation history\<close>

text \<open>
  Claim C8. The history holds at most 10 operations, in the order of insertion, and
  every operation of the engine keeps it so: \<open>_track_operation\<close> appends the new
  operation and, when the history was full, drops the oldest one; \<open>copy\<close> and \<open>move\<close>
  change the history through \<open>_track_operation\<close> only, and \<open>undo_last_action\<close> leaves it
  as it is.
\<close>

theorem history_capacity:
  assumes "length (operation_history self) \<le> 10"
  shows "operation_history (track_operation ev self ty fis) =
           (if length (operation_history self) = 10 then tl (operation_history self)
            else operation_history self) @ [\<lparr>op_type = ty, op_files = fis, op_timestamp = now ev\<rparr>] \<and>
         length (operation_history (track_operation ev self ty fis)) \<le> 10 \<and>
         (\<forall>r fs' self'. copy ev fs self = Inr (r, fs', self') \<longrightarrow>
            length (operation_history self') \<le> 10 \<and>
            (self' = self \<or> self' = track_operation ev self ''copy'' (fst r))) \<and>
         (\<forall>r fs' self'. move ev fs self = Inr (r, fs', self') \<longrightarrow>
            length (operation_history self') \<le> 10 \<and>
            (self' = self \<or> self' = track_operation ev self ''move'' (fst r))) \<and>
         (\<forall>b fs' self'. undo_last_action ev fs self = (b, fs', self') \<longrightarrow>
            operation_history self' = operation_history self)"
proof -
  have t: "length (operation_history (track_operation ev self ty' fis')) \<le> 10" for ty' fis'
    using assms by (auto simp: track_history)
  have c: "length (operation_history self') \<le> 10 \<and>
            (self' = self \<or> self' = track_operation ev self ''copy'' (fst r))"
    if "copy ev fs self = Inr (r, fs', self')" for r fs' self'
    using copy_self_cases [of ev fs self "fst r" "snd r" fs' self'] that t assms
    by (auto split: if_splits)
  have m: "length (operation_history self') \<le> 10 \<and>
            (self' = self \<or> self' = track_operation ev self ''move'' (fst r))"
    if "move ev fs self = Inr (r, fs', self')" for r fs' self'
    using move_self_cases [of ev fs self "fst r" "snd r" fs' self'] that t assms
    by (auto split: if_splits)
  have u: "operation_history self' = operation_history self"
    if "undo_last_action ev fs self = (b, fs', self')" for b fs' self'
    using undo_self_cases [OF that] by (auto split: if_splits)
  show ?thesis using assms t c m u by (simp add: track_history)
qed

text \<open>A full history: the oldest operation goes, the new one is the last.\<close>

definition ex_op :: "nat \<Rightarrow> operation" where
  "ex_op n = \<lparr>op_type = ''copy'', op_files = [], op_timestamp = noon 2025 1 n\<rparr>"

definition ex_full :: logic where
  "ex_full = (init [''src''] [''dst''] ''YYYY-MM-DD'')\<lparr>operation_history := map ex_op [1, 2, 3, 4, 5, 6, 7, 8, 9, 10]\<rparr>"

theorem history_capacity_witness:
  "length (operation_history ex_full) \<le> 10 \<and>
   operation_history (track_operation ex_env ex_full ''move'' []) =
     map ex_op [2, 3, 4, 5, 6, 7, 8, 9, 10] @
       [\<lparr>op_type = ''move'', op_files = [], op_timestamp = now ex_env\<rparr>] \<and>
   length (operation_history (track_operation ex_env ex_full ''move'' [])) \<le> 10"
  using history_capacity [of ex_full ex_env "''move''" "[]" "[]"]
  by (simp add: ex_full_def)


subsection \<open>Evaluating the model on a concrete file system\<close>

text \<open>The definitions to unfold when a concrete run is computed by rewriting.\<close>

lemmas str_simps = str_nat.simps digit_char_def pad2_def

lemmas fs_defs = lookup_def path_exists_def path_isdir_def path_isfile_def children_def
  os_listdir_def os_stat_def parent_error_def stamp_def os_mkdir_def os_remove_def os_rmdir_def
  copy_file_def shutil_copy_def relocate_def renamed_def os_rename_def shutil_move_def
  os_makedirs.simps

lemmas eng_defs = init_def set_add_def undo_move_operation_def undo_copy_operation_def
  undo_last_action_def track_operation_def get_target_files_def format_date_def
  image_extensions_def get_exif_date_def get_file_date_info_def read_file_date_properties_def
  plan_destination_def create_folder_with_date_def transfer_one_def
  move_files_to_destination_folder_def copy_files_to_destination_folder_def
  organize_files_by_date_def move_def copy_def
  splitext_def rfind_def lower_def lower_char_def Let_def

definition ex_fs :: fs where
  "ex_fs = [([], Dir (noon 2020 1 1)), ([''src''], Dir (noon 2020 1 1)),
            ([''dst''], Dir (noon 2020 1 1)),
            ([''src'', ''doc.txt''], File ''D'' (noon 2024 3 10) Undecodable)]"

definition ex_logic :: logic where
  "ex_logic = init [''src''] [''dst''] ''YYYY-MM-DD''"

definition ex_entry :: file_info where
  "ex_entry = \<lparr>fi_file = ''doc.txt'', from_path = [''src'', ''doc.txt''],
           to_path = [''dst'', ''2024-03-10'', ''doc.txt''], date_folder = ''2024-03-10'',
           date_source = ''File modification time''\<rparr>"

lemma ex_copy: "copy ex_env ex_fs ex_logic =
  Inr (([ex_entry], []),
       [([], Dir (noon 2020 1 1)), ([''src''], Dir (noon 2020 1 1)),
        ([''dst''], Dir (noon 2025 6 1)),
        ([''src'', ''doc.txt''], File ''D'' (noon 2024 3 10) Undecodable),
        ([''dst'', ''2024-03-10''], Dir (noon 2025 6 1)),
        ([''dst'', ''2024-03-10'', ''doc.txt''], File ''D'' (noon 2025 6 1) Undecodable)],
       track_operation ex_env ex_logic ''copy'' [ex_entry])"
  by (simp add: ex_fs_def ex_logic_def ex_env_def ex_entry_def noon_def str_simps fs_defs eng_defs)

subsection \<open>The last operation\<close>

text \<open>
  Claim C7. A batch records its operation as the last operation only if its list of
  entries is not empty (with no entry the object is left as it was); the last operation
  is one optional value, which a batch with an entry replaces by its own operation
  whatever was there before; and an undo that returns true leaves it at none.
\<close>

theorem last_operation_recorded:
  "(\<forall>entries errors fs' self'. copy ev fs self = Inr ((entries, errors), fs', self') \<longrightarrow>
      (if entries = [] then self' = self
       else last_operation self' =
              Some \<lparr>op_type = ''copy'', op_files = entries, op_timestamp = now ev\<rparr>)) \<and>
   (\<forall>entries errors fs' self'. move ev fs self = Inr ((entries, errors), fs', self') \<longrightarrow>
      (if entries = [] then self' = self
       else last_operation self' =
              Some \<lparr>op_type = ''move'', op_files = entries, op_timestamp = now ev\<rparr>)) \<and>
   (\<forall>fs' self'. undo_last_action ev fs self = (True, fs', self') \<longrightarrow>
      last_operation self' = None)"
proof -
  have c: "(if entries = [] then self' = self
       else last_operation self' =
              Some \<lparr>op_type = ''copy'', op_files = entries, op_timestamp = now ev\<rparr>)"
    if "copy ev fs self = Inr ((entries, errors), fs', self')" for entries errors fs' self'
    using copy_self_cases [OF that] by (simp add: track_operation_def Let_def)
  have m: "(if entries = [] then self' = self
       else last_operation self' =
              Some \<lparr>op_type = ''move'', op_files = entries, op_timestamp = now ev\<rparr>)"
    if "move ev fs self = Inr ((entries, errors), fs', self')" for entries errors fs' self'
    using move_self_cases [OF that] by (simp add: track_operation_def Let_def)
  have u: "last_operation self' = None"
    if "undo_last_action ev fs self = (True, fs', self')" for fs' self'
    using undo_self_cases [OF that] by simp
  show ?thesis using c m u by blast
qed

theorem last_operation_recorded_witness:
  "\<exists>fs' self'. copy ex_env ex_fs ex_logic = Inr (([ex_entry], []), fs', self') \<and>
     last_operation self' =
       Some \<lparr>op_type = ''copy'', op_files = [ex_entry], op_timestamp = now ex_env\<rparr>"
  using last_operation_recorded [of ex_env ex_fs ex_logic] ex_copy by simp

subsection \<open>Undo fails closed\<close>

text \<open>
  Claim C5. \<open>undo_last_action\<close> returns a boolean in every state (it is a total
  function whose handlers turn every exception into a result): it returns false at once
  when there is no last operation; false with file system and object untouched when the
  kind is neither \<open>move\<close> nor \<open>copy\<close>; false with the object untouched when an exception
  leaves the loop of the undo; and the last operation is cleared exactly when it returns
  true.
\<close>

theorem undo_fails_closed:
  "(last_operation self = None \<longrightarrow> undo_last_action ev fs self = (False, fs, self)) \<and>
   (\<forall>op. last_operation self = Some op \<and> op_type op \<noteq> ''move'' \<and> op_type op \<noteq> ''copy'' \<longrightarrow>
      undo_last_action ev fs self = (False, fs, self)) \<and>
   (\<forall>op e fs1. last_operation self = Some op \<and> op_type op = ''move'' \<and>
        undo_move_loop (now ev) fs (op_files op) [] = Inl (e, fs1) \<longrightarrow>
      undo_last_action ev fs self = (False, fs1, self)) \<and>
   (\<forall>op e fs1. last_operation self = Some op \<and> op_type op = ''copy'' \<and>
        undo_copy_loop (now ev) fs (op_files op) [] = Inl (e, fs1) \<longrightarrow>
      undo_last_action ev fs self = (False, fs1, self)) \<and>
   (\<exists>b fs'. undo_last_action ev fs self =
      (b, fs', if b then self\<lparr>last_operation := None\<rparr> else self))"
proof -
  obtain b fs' self' where r: "undo_last_action ev fs self = (b, fs', self')"
    by (cases "undo_last_action ev fs self") auto
  have "\<exists>b fs'. undo_last_action ev fs self =
      (b, fs', if b then self\<lparr>last_operation := None\<rparr> else self)"
    using undo_self_cases [OF r] r by auto
  then show ?thesis
    by (auto simp: undo_last_action_def undo_move_operation_def undo_copy_operation_def)
qed

text \<open>A directory now stands where the copy was: \<open>os.remove\<close> raises, the undo returns false.\<close>

definition ex_blocked_fs :: fs where
  "ex_blocked_fs = [([], Dir (noon 2020 1 1)), ([''dst''], Dir (noon 2020 1 1)),
                    ([''dst'', ''2024-03-10''], Dir (noon 2020 1 1)),
                    ([''dst'', ''2024-03-10'', ''doc.txt''], Dir (noon 2020 1 1))]"

definition ex_blocked :: logic where
  "ex_blocked = ex_logic\<lparr>last_operation :=
     Some \<lparr>op_type = ''copy'', op_files = [ex_entry], op_timestamp = noon 2025 1 1\<rparr>\<rparr>"

theorem undo_fails_closed_witness:
  "undo_copy_loop (now ex_env) ex_blocked_fs [ex_entry] [] = Inl (IsADirectoryError, ex_blocked_fs) \<and>
   undo_last_action ex_env ex_blocked_fs ex_blocked = (False, ex_blocked_fs, ex_blocked)"
proof -
  have l: "undo_copy_loop (now ex_env) ex_blocked_fs [ex_entry] [] = Inl (IsADirectoryError, ex_blocked_fs)"
    by (simp add: ex_blocked_fs_def ex_entry_def fs_defs)
  have o: "last_operation ex_blocked =
      Some \<lparr>op_type = ''copy'', op_files = [ex_entry], op_timestamp = noon 2025 1 1\<rparr>"
    by (simp add: ex_blocked_def)
  show ?thesis
    using undo_fails_closed [of ex_blocked ex_env ex_blocked_fs] l o by simp
qed


subsection \<open>Subdirectories of the source\<close>

text \<open>
  Claim C1 says that the batches process only the regular files of the listing and
  never copy, move or record a subdirectory. \<open>get_target_files\<close> is the plain
  \<open>os.listdir\<close>, though (only \<open>get_target_folder_files_count\<close> filters with
  \<open>os.path.isfile\<close>): in a source that holds nothing but the directory \<open>sub\<close>, the count
  is 0 and \<open>move\<close> moves \<open>sub\<close> with its content into the bucket of its own
  modification date and records an entry for it.
\<close>

definition ex_sub_fs :: fs where
  "ex_sub_fs = [([], Dir (noon 2020 1 1)), ([''src''], Dir (noon 2020 1 1)),
                ([''dst''], Dir (noon 2020 1 1)),
                ([''src'', ''sub''], Dir (noon 2022 2 2)),
                ([''src'', ''sub'', ''inner.txt''], File ''I'' (noon 2021 1 1) Undecodable)]"

theorem move_takes_subdirectory:
  "get_target_folder_files_count ex_sub_fs ex_logic = Inr 0 \<and>
   move ex_env ex_sub_fs ex_logic =
     Inr (([\<lparr>fi_file = ''sub'', from_path = [''src'', ''sub''],
              to_path = [''dst'', ''2022-02-02'', ''sub''], date_folder = ''2022-02-02'',
              date_source = ''File modification time''\<rparr>], []),
          [([], Dir (noon 2020 1 1)), ([''src''], Dir (noon 2025 6 1)),
           ([''dst''], Dir (noon 2025 6 1)),
           ([''dst'', ''2022-02-02'', ''sub''], Dir (noon 2022 2 2)),
           ([''dst'', ''2022-02-02'', ''sub'', ''inner.txt''], File ''I'' (noon 2021 1 1) Undecodable),
           ([''dst'', ''2022-02-02''], Dir (noon 2025 6 1))],
          track_operation ex_env ex_logic ''move''
            [\<lparr>fi_file = ''sub'', from_path = [''src'', ''sub''],
              to_path = [''dst'', ''2022-02-02'', ''sub''], date_folder = ''2022-02-02'',
              date_source = ''File modification time''\<rparr>])"
  by (simp add: ex_sub_fs_def ex_logic_def ex_env_def noon_def str_simps fs_defs eng_defs
      get_target_folder_files_count_def)

subsection \<open>What aborts a batch\<close>

text \<open>
  Claim C6 says that only an unavailable source directory aborts a batch and that every
  failure of one file is recorded in the list of errors. \<open>copy\<close> first runs
  \<open>create_folder_with_date\<close>, which has no handler: with a regular file where the
  destination root should be, \<open>os.makedirs\<close> raises and \<open>copy\<close> raises with it, where
  \<open>move\<close> on the same input records the error of the file and returns.
\<close>

definition ex_file_dst_fs :: fs where
  "ex_file_dst_fs = [([], Dir (noon 2020 1 1)), ([''src''], Dir (noon 2020 1 1)),
                     ([''dst''], File ''x'' (noon 2020 1 1) Undecodable),
                     ([''src'', ''doc.txt''], File ''D'' (noon 2024 3 10) Undecodable)]"

theorem copy_aborts_on_bucket_failure:
  "copy ex_env ex_file_dst_fs ex_logic = Inl (NotADirectoryError, ex_file_dst_fs) \<and>
   move ex_env ex_file_dst_fs ex_logic =
     Inr (([], [ErrorProcessingFile ''doc.txt'' NotADirectoryError]), ex_file_dst_fs, ex_logic)"
  by (simp add: ex_file_dst_fs_def ex_logic_def ex_env_def noon_def str_simps fs_defs eng_defs)


subsection \<open>Undoing a move over an occupied source path\<close>










definition ex_taken_fs :: fs where
  "ex_taken_fs = [([], Dir (noon 2020 1 1)), ([''src''], Dir (noon 2020 1 1)),
                  ([''dst''], Dir (noon 2020 1 1)),
                  ([''dst'', ''2024-03-10''], Dir (noon 2025 6 1)),
                  ([''dst'', ''2024-03-10'', ''doc.txt''], File ''D'' (noon 2024 3 10) Undecodable),
                  ([''src'', ''doc.txt''], File ''NEW'' (noon 2025 6 2) Undecodable)]"

definition ex_moved :: logic where
  "ex_moved = ex_logic\<lparr>last_operation :=
     Some \<lparr>op_type = ''move'', op_files = [ex_entry], op_timestamp = noon 2025 6 1\<rparr>\<rparr>"


text \<open>The run of that undo in full: the bucket it has emptied goes as well.\<close>

lemma ex_undo_move:
  "undo_last_action ex_env ex_taken_fs ex_moved =
     (True,
      [([], Dir (noon 2020 1 1)), ([''src''], Dir (noon 2025 6 1)),
       ([''dst''], Dir (noon 2025 6 1)),
       ([''src'', ''doc.txt''], File ''D'' (noon 2024 3 10) Undecodable)],
      ex_moved\<lparr>last_operation := None\<rparr>)"
  by (simp add: ex_taken_fs_def ex_moved_def ex_logic_def ex_entry_def ex_env_def noon_def
      fs_defs eng_defs)

subsection \<open>The date of an image\<close>

text \<open>
  A format without a colon never matches data with a colon: every character a match
  uses up is a digit, a blank or one of the format's own characters.
\<close>

lemma first_some_SomeD: "first_some f xs = Some y \<Longrightarrow> \<exists>x\<in>set xs. f x = Some y"
  by (induction xs) (auto split: option.splits)

lemma alt1_sound: "(v, r) \<in> set (alt1 p s) \<Longrightarrow> s = v @ r \<and> (\<forall>x\<in>set v. p x)"
  by (cases "(p, s)" rule: alt1.cases) (auto split: if_splits)

lemma alt2_sound: "(v, r) \<in> set (alt2 p q s) \<Longrightarrow> s = v @ r \<and> (\<forall>x\<in>set v. p x \<or> q x)"
  by (cases "(p, q, s)" rule: alt2.cases) (auto split: if_splits)

lemma alt4_sound: "(v, r) \<in> set (alt4 p s) \<Longrightarrow> s = v @ r \<and> (\<forall>x\<in>set v. p x)"
  by (cases "(p, s)" rule: alt4.cases) (auto split: if_splits)

lemma directive_no_colon:
  assumes "(v, r) \<in> set (directive c s)"
  shows "s = v @ r \<and> CHR '':'' \<notin> set v"
proof -
  have d: "\<not> is_digit (CHR '':'')" by (simp add: is_digit_def)
  have o: "\<not> one_of cs (CHR '':'')" if "CHR '':'' \<notin> set cs" for cs
    using that by (simp add: one_of_def)
  from assms show ?thesis
    unfolding directive_def
    by (auto split: if_splits dest!: alt1_sound alt2_sound alt4_sound simp: d one_of_def)
qed

lemma spaces_no_colon: "r \<in> set (spaces s) \<Longrightarrow> \<exists>pre. s = pre @ r \<and> CHR '':'' \<notin> set pre"
proof (induction s)
  case Nil
  then show ?case by simp
next
  case (Cons c s)
  show ?case
  proof (cases "is_space c")
    case True
    then have nc: "c \<noteq> CHR '':''" by (auto simp: is_space_def)
    from Cons.prems True have "r \<in> set (spaces s) \<or> r = s" by auto
    then show ?thesis
    proof
      assume "r \<in> set (spaces s)"
      then obtain pre where "s = pre @ r" "CHR '':'' \<notin> set pre" using Cons.IH by blast
      then have "c # s = (c # pre) @ r \<and> CHR '':'' \<notin> set (c # pre)" using nc by simp
      then show ?thesis by blast
    next
      assume "r = s"
      then have "c # s = [c] @ r \<and> CHR '':'' \<notin> set [c]" using nc by simp
      then show ?thesis by blast
    qed
  next
    case False
    with Cons.prems show ?thesis by simp
  qed
qed

lemma re_match_no_colon:
  "re_match ts s = Some (fs, r) \<Longrightarrow> Lit (CHR '':'') \<notin> set ts \<Longrightarrow>
     \<exists>pre. s = pre @ r \<and> CHR '':'' \<notin> set pre"
proof (induction ts arbitrary: s fs r)
  case Nil
  then show ?case by simp
next
  case (Cons tk ts)
  show ?case
  proof (cases tk)
    case (Directive c)
    with Cons.prems obtain v r1 where x: "(v, r1) \<in> set (directive c s)"
      and m: "map_option (\<lambda>(fs, r'). ((c, v) # fs, r')) (re_match ts r1) = Some (fs, r)"
      by (auto dest!: first_some_SomeD)
    from m obtain fs1 where "re_match ts r1 = Some (fs1, r)" by auto
    then obtain pre where p: "r1 = pre @ r" "CHR '':'' \<notin> set pre"
      using Cons.IH Cons.prems(2) by fastforce
    from directive_no_colon [OF x] p have "s = (v @ pre) @ r \<and> CHR '':'' \<notin> set (v @ pre)" by simp
    then show ?thesis by blast
  next
    case Space
    with Cons.prems obtain r1 where x: "r1 \<in> set (spaces s)" and m: "re_match ts r1 = Some (fs, r)"
      by (auto dest!: first_some_SomeD)
    then obtain pre where p: "r1 = pre @ r" "CHR '':'' \<notin> set pre"
      using Cons.IH Cons.prems(2) by fastforce
    from spaces_no_colon [OF x] obtain pre0 where "s = pre0 @ r1" "CHR '':'' \<notin> set pre0" by blast
    with p have "s = (pre0 @ pre) @ r \<and> CHR '':'' \<notin> set (pre0 @ pre)" by simp
    then show ?thesis by blast
  next
    case (Lit c)
    with Cons.prems obtain r1 where s: "s = c # r1" and m: "re_match ts r1 = Some (fs, r)"
      by (auto split: list.splits if_splits)
    from Lit Cons.prems(2) have nc: "c \<noteq> CHR '':''" by auto
    from m obtain pre where p: "r1 = pre @ r" "CHR '':'' \<notin> set pre"
      using Cons.IH Cons.prems(2) by fastforce
    with s nc have "s = (c # pre) @ r \<and> CHR '':'' \<notin> set (c # pre)" by simp
    then show ?thesis by blast
  next
    case Stray
    with Cons.prems show ?thesis by simp
  qed
qed

lemma strptime_colon:
  assumes "CHR '':'' \<in> set s" and "Lit (CHR '':'') \<notin> set (tokens False fmt)"
  shows "strptime s fmt = None"
proof (cases "re_match (tokens False fmt) s")
  case None
  then show ?thesis by (simp add: strptime_def)
next
  case (Some a)
  obtain fs r where a: "a = (fs, r)" by (cases a)
  from re_match_no_colon [OF Some [unfolded a] assms(2)]
  obtain pre where "s = pre @ r" "CHR '':'' \<notin> set pre" by blast
  with assms(1) have "r \<noteq> []" by auto
  with Some a show ?thesis by (simp add: strptime_def)
qed

lemma replace_absent: "old \<notin> set s \<Longrightarrow> replace old new n s = s"
  by (induction old new n s rule: replace.induct) auto

lemma tokens_ymd: "Lit (CHR '':'') \<notin> set (tokens False ''%Y-%m-%d'')"
  by simp

lemma tokens_slash: "Lit (CHR '':'') \<notin> set (tokens False ''%Y/%m/%d'')"
  by simp

text \<open>
  So the two short formats never match a tag value as it is when it has a colon; only
  the value after the replacements could match them.
\<close>

lemma short_formats_colon:
  assumes "CHR '':'' \<in> set v"
  shows "strptime v ''%Y-%m-%d'' = None" and "strptime v ''%Y/%m/%d'' = None"
  using strptime_colon [OF assms tokens_ymd] strptime_colon [OF assms tokens_slash] by simp_all

lemma replace_two: "replace old new 2 s = replace old new (Suc (Suc 0)) s"
  by (simp add: numeral_2_eq_2)

lemmas strptime_defs = replace_two strptime_def directive_def one_of_def is_digit_def is_space_def
  field_def digit_val_def valid_datetime_def days_in_month_def is_leap_def

text \<open>
  The canonical value \<open>YYYY:MM:DD HH:MM:SS\<close> reads \<open>2023-01-15 10 30:00\<close> after the two
  replacements, which \<open>%Y-%m-%d %H:%M:%S\<close> does not match: the tag is passed over.
\<close>

lemma canonical_exif_value_not_parsed: "parse_date_str ''2023:01:15 10:30:00'' = None"
  by (simp add: parse_date_str_def strptime_defs)

text \<open>
  Claim C2 says that the tags are probed in the order \<open>DateTimeOriginal\<close>, \<open>DateTime\<close>,
  alternate \<open>DateTime\<close>, \<open>DateTimeDigitized\<close>, and that a value that does not parse as
  \<open>%Y-%m-%d %H:%M:%S\<close> after the replacements is tried against \<open>%Y-%m-%d\<close> and \<open>%Y/%m/%d\<close>.
  The list in \<open>_get_exif_date\<close> is 36867, 36868, 306, 50971, with the comments
  \<open>DateTimeOriginal\<close>, \<open>DateTime\<close>, \<open>DateTime\<close>, \<open>DateTimeDigitized\<close>; but in the EXIF standard
  (and in \<open>PIL.ExifTags\<close>) 36868 is \<open>DateTimeDigitized\<close>, 306 is \<open>DateTime\<close> and 50971 is
  \<open>PreviewDateTime\<close>. So \<open>DateTimeDigitized\<close> is probed before \<open>DateTime\<close>: a photograph
  with the \<open>DateTime\<close> 2020-01-01 and the \<open>DateTimeDigitized\<close> 2021-02-02 is filed under
  2021-02-02. And a value with a colon is tried against the first format only: the date
  \<open>2023:01:15\<close> becomes \<open>2023-01-15\<close>, which \<open>%Y-%m-%d\<close> parses, but the tag is passed over.
\<close>

definition ex_tags_fs :: fs where
  "ex_tags_fs = [([], Dir (noon 2020 1 1)), ([''src''], Dir (noon 2020 1 1)),
                 ([''dst''], Dir (noon 2020 1 1)),
                 ([''src'', ''photo.jpg''],
                  File ''P'' (noon 2024 5 5)
                    (Exif [(306, ''2020-01-01''), (36868, ''2021-02-02'')]))]"

theorem exif_digitized_before_datetime:
  "get_file_date_info ex_env ex_tags_fs ex_logic ''photo.jpg'' =
     Inr \<lparr>info_date = ''2021-02-02'', info_source = ''EXIF data'',
          original_date = \<lparr>year = 2021, month = 2, day = 2, hour = 0, minute = 0, second = 0\<rparr>,
          datetime_original = ''2021-02-02 00:00:00''\<rparr> \<and>
   parse_date_str ''2023:01:15'' = None \<and>
   strptime (replace (CHR '':'') (CHR '' '') 1 (replace (CHR '':'') (CHR ''-'') 2 ''2023:01:15''))
     ''%Y-%m-%d'' =
     Some \<lparr>year = 2023, month = 1, day = 15, hour = 0, minute = 0, second = 0\<rparr>"
proof -
  have p: "parse_date_str ''2021-02-02'' =
      Some \<lparr>year = 2021, month = 2, day = 2, hour = 0, minute = 0, second = 0\<rparr>"
    by (simp add: parse_date_str_def strptime_defs)
  have e: "get_exif_date ex_env ex_tags_fs [''src'', ''photo.jpg''] =
      Some \<lparr>year = 2021, month = 2, day = 2, hour = 0, minute = 0, second = 0\<rparr>"
    by (simp add: get_exif_date_def ex_env_def ex_tags_fs_def lookup_def date_fields_def p
        splitext_def rfind_def lower_def lower_char_def image_extensions_def)
  have s: "os_stat ex_tags_fs [''src'', ''photo.jpg''] = Inr (noon 2024 5 5)"
    by (simp add: os_stat_def ex_tags_fs_def lookup_def)
  have g: "get_file_date_info ex_env ex_tags_fs ex_logic ''photo.jpg'' =
     Inr \<lparr>info_date = ''2021-02-02'', info_source = ''EXIF data'',
          original_date = \<lparr>year = 2021, month = 2, day = 2, hour = 0, minute = 0, second = 0\<rparr>,
          datetime_original = ''2021-02-02 00:00:00''\<rparr>"
    by (simp add: get_file_date_info_def ex_logic_def init_def e s format_date_def str_simps)
  have c: "parse_date_str ''2023:01:15'' = None"
    by (simp add: parse_date_str_def strptime_defs)
  have r: "strptime (replace (CHR '':'') (CHR '' '') 1 (replace (CHR '':'') (CHR ''-'') 2 ''2023:01:15''))
     ''%Y-%m-%d'' =
     Some \<lparr>year = 2023, month = 1, day = 15, hour = 0, minute = 0, second = 0\<rparr>"
    by (simp add: strptime_defs)
  from g c r show ?thesis by simp
qed

text \<open>
  A photograph whose \<open>DateTimeOriginal\<close> is written the canonical way and whose \<open>DateTime\<close>
  is a plain date: the first value does not parse, the second does.
\<close>

definition ex_photo_fs :: fs where
  "ex_photo_fs = [([], Dir (noon 2020 1 1)), ([''src''], Dir (noon 2020 1 1)),
                  ([''dst''], Dir (noon 2020 1 1)),
                  ([''src'', ''photo.JPG''],
                   File ''P'' (noon 2024 5 5)
                     (Exif [(36867, ''2023:01:15 10:30:00''), (306, ''2023/01/15'')]))]"

lemma ex_photo_date:
  "get_exif_date ex_env ex_photo_fs [''src'', ''photo.JPG''] =
     Some \<lparr>year = 2023, month = 1, day = 15, hour = 0, minute = 0, second = 0\<rparr>"
proof -
  have p: "parse_date_str ''2023/01/15'' =
      Some \<lparr>year = 2023, month = 1, day = 15, hour = 0, minute = 0, second = 0\<rparr>"
    by (simp add: parse_date_str_def strptime_defs)
  show ?thesis
    by (simp add: get_exif_date_def ex_env_def ex_photo_fs_def lookup_def date_fields_def p
        canonical_exif_value_not_parsed
        splitext_def rfind_def lower_def lower_char_def image_extensions_def)
qed


subsection \<open>Destinations within one operation\<close>

text \<open>
  Claim C4 says that the counter loop makes the destinations of one operation pairwise
  different. The loop does pick a path that does not exist at that moment, but a later
  step can take that path out of the way again: when a folder is organised in place
  (source and destination root are the same directory) and holds a date folder from an
  earlier run, \<open>move\<close> first moves \<open>a\<close> into that folder as \<open>a_1\<close>, then moves the folder
  itself (an item of the listing like any other) into the bucket of its own date, and
  then makes the date folder anew and moves the file \<open>a_1\<close> to the very path the first
  entry records.
\<close>

definition ex_inplace :: logic where
  "ex_inplace = init [''d''] [''d''] ''YYYY-MM-DD''"

definition ex_inplace_fs :: fs where
  "ex_inplace_fs = [([], Dir (noon 2020 1 1)), ([''d''], Dir (noon 2020 1 1)),
                    ([''d'', ''a''], File ''A'' (noon 2024 3 10) Undecodable),
                    ([''d'', ''2024-03-10''], Dir (noon 2025 6 1)),
                    ([''d'', ''2024-03-10'', ''a''], File ''old'' (noon 2024 3 10) Undecodable),
                    ([''d'', ''a_1''], File ''B'' (noon 2024 3 10) Undecodable)]"

theorem move_repeats_destination:
  "os_listdir ex_inplace_fs [''d''] = Inr [''a'', ''2024-03-10'', ''a_1''] \<and>
   (case move ex_env ex_inplace_fs ex_inplace of
      Inl x \<Rightarrow> None
    | Inr ((entries, errors), fs', self') \<Rightarrow> Some (map to_path entries, errors)) =
     Some ([[''d'', ''2024-03-10'', ''a_1''], [''d'', ''2025-06-01'', ''2024-03-10''],
            [''d'', ''2024-03-10'', ''a_1'']], [])"
  by (simp add: ex_inplace_fs_def ex_inplace_def ex_env_def noon_def str_simps new_name_def
      while_exists.simps fs_defs eng_defs)

end
